theory Spec2Isabelle
  imports Complex_Main
begin

section \<open>Python strings\<close>

text \<open>
  A Python \<^verbatim>\<open>str\<close> is a sequence of Unicode code points, and \<^verbatim>\<open>len\<close> counts code
  points. Strings are therefore lists of code points (natural numbers below 0x110000),
  not lists of bytes. \<open>py\<close> embeds an ASCII literal.
\<close>

type_synonym codepoint = nat
type_synonym pystr = "codepoint list"

definition py :: "string \<Rightarrow> pystr" where
  "py s = map of_char s"

definition in_ranges :: "(nat \<times> nat) list \<Rightarrow> codepoint \<Rightarrow> bool" where
  "in_ranges rs c = list_ex (\<lambda>(lo, hi). lo \<le> c \<and> c \<le> hi) rs"

text \<open>
  \<^verbatim>\<open>str.isdigit\<close> holds of a character whose Unicode property Numeric_Type is Digit
  or Decimal. The table is the one of Unicode 14.0 (CPython 3.11), as inclusive ranges.
\<close>

definition digit_ranges :: "(nat \<times> nat) list" where
  "digit_ranges =
    [(48, 57), (178, 179), (185, 185), (1632, 1641), (1776, 1785), (1984, 1993),
     (2406, 2415), (2534, 2543), (2662, 2671), (2790, 2799), (2918, 2927), (3046, 3055),
     (3174, 3183), (3302, 3311), (3430, 3439), (3558, 3567), (3664, 3673), (3792, 3801),
     (3872, 3881), (4160, 4169), (4240, 4249), (4969, 4977), (6112, 6121), (6160, 6169),
     (6470, 6479), (6608, 6618), (6784, 6793), (6800, 6809), (6992, 7001), (7088, 7097),
     (7232, 7241), (7248, 7257), (8304, 8304), (8308, 8313), (8320, 8329), (9312, 9320),
     (9332, 9340), (9352, 9360), (9450, 9450), (9461, 9469), (9471, 9471),
     (10102, 10110), (10112, 10120), (10122, 10130), (42528, 42537), (43216, 43225),
     (43264, 43273), (43472, 43481), (43504, 43513), (43600, 43609), (44016, 44025),
     (65296, 65305), (66720, 66729), (68160, 68163), (68912, 68921), (69216, 69224),
     (69714, 69722), (69734, 69743), (69872, 69881), (69942, 69951), (70096, 70105),
     (70384, 70393), (70736, 70745), (70864, 70873), (71248, 71257), (71360, 71369),
     (71472, 71481), (71904, 71913), (72016, 72025), (72784, 72793), (73040, 73049),
     (73120, 73129), (92768, 92777), (92864, 92873), (93008, 93017), (120782, 120831),
     (123200, 123209), (123632, 123641), (125264, 125273), (127232, 127242),
     (130032, 130041)]"

definition isdigit_char :: "codepoint \<Rightarrow> bool" where
  "isdigit_char c = in_ranges digit_ranges c"

text \<open>\<^verbatim>\<open>s.isdigit()\<close>: every character is a digit and there is at least one.\<close>

definition isdigit :: "pystr \<Rightarrow> bool" where
  "isdigit s = (s \<noteq> [] \<and> list_all isdigit_char s)"

text \<open>
  \<^verbatim>\<open>str.isspace\<close> characters, the ones \<^verbatim>\<open>s.strip()\<close> removes from both ends.
\<close>

definition space_ranges :: "(nat \<times> nat) list" where
  "space_ranges =
    [(9, 13), (28, 32), (133, 133), (160, 160), (5760, 5760), (8192, 8202),
     (8232, 8233), (8239, 8239), (8287, 8287), (12288, 12288)]"

definition isspace_char :: "codepoint \<Rightarrow> bool" where
  "isspace_char c = in_ranges space_ranges c"

definition strip :: "pystr \<Rightarrow> pystr" where
  "strip s = rev (dropWhile isspace_char (rev (dropWhile isspace_char s)))"

text \<open>
  \<^verbatim>\<open>s.split(sep)\<close> for a one-character separator: the pieces between occurrences
  of the separator, in order; the empty string gives one empty piece.
\<close>

fun split :: "codepoint \<Rightarrow> pystr \<Rightarrow> pystr list" where
  "split sep [] = [[]]"
| "split sep (c # cs) =
     (if c = sep then [] # split sep cs
      else (case split sep cs of
              [] \<Rightarrow> [[c]]
            | t # ts \<Rightarrow> (c # t) # ts))"

section \<open>barcode\_detector.py: the format check\<close>

definition valid_lengths :: "nat list" where
  "valid_lengths = [8, 12, 13, 14]"

definition validate_barcode_format :: "pystr \<Rightarrow> bool" where
  "validate_barcode_format barcode =
     (if \<not> isdigit barcode then False
      else length barcode \<in> set valid_lengths)"

text \<open>
  The format rule in the words of the specification, for comparison with the code:
  only ASCII decimal digits, and a length of 8, 12, 13 or 14.
\<close>

definition ascii_digit :: "codepoint \<Rightarrow> bool" where
  "ascii_digit c = (48 \<le> c \<and> c \<le> 57)"

definition spec_isValidBarcode :: "pystr \<Rightarrow> bool" where
  "spec_isValidBarcode text =
     (list_all ascii_digit text \<and> length text \<in> {8, 12, 13, 14})"

section \<open>Exceptions\<close>

text \<open>
  Every raise of the source is a value. \<open>LibraryError\<close> stands for an exception raised
  inside an external library (base64, OpenCV, requests, the JSON parser) and carries
  the text \<^verbatim>\<open>str(e)\<close>.
\<close>

datatype exn =
    AttributeError
  | KeyError
  | IndexError
  | TypeError
  | LookupError
  | UnicodeDecodeError
  | IntegrityError
  | OverflowError
  | LibraryError pystr

section \<open>barcode\_detector.py: the detection pipeline\<close>

type_synonym bytes = "nat list"

definition cont :: "nat \<Rightarrow> bool" where
  "cont b = (128 \<le> b \<and> b < 192)"

text \<open>
  \<^verbatim>\<open>bytes.decode('utf-8')\<close>, strict: \<open>None\<close> where Python raises UnicodeDecodeError
  (a stray or missing continuation byte, an overlong form, a surrogate, a value above
  0x10FFFF). \<open>utf8_go n acc lo\<close> reads the bytes left to right: \<open>n\<close> continuation bytes
  are still expected, \<open>acc\<close> holds the bits read so far and \<open>lo\<close> is the least code
  point the current form may encode.
\<close>

fun utf8_go :: "nat \<Rightarrow> nat \<Rightarrow> nat \<Rightarrow> bytes \<Rightarrow> pystr option" where
  "utf8_go n acc lo [] = (if n = 0 then Some [] else None)"
| "utf8_go n acc lo (b # bs) =
     (if n = 0 then
        (if b < 128 then map_option (Cons b) (utf8_go 0 0 0 bs)
         else if 194 \<le> b \<and> b < 224 then utf8_go 1 (b - 192) 128 bs
         else if 224 \<le> b \<and> b < 240 then utf8_go 2 (b - 224) 2048 bs
         else if 240 \<le> b \<and> b < 245 then utf8_go 3 (b - 240) 65536 bs
         else None)
      else if cont b then
        (let cp = acc * 64 + (b - 128) in
         if n = 1 then
           (if lo \<le> cp \<and> \<not> (55296 \<le> cp \<and> cp < 57344) \<and> cp < 1114112
            then map_option (Cons cp) (utf8_go 0 0 0 bs)
            else None)
         else utf8_go (n - 1) cp lo bs)
      else None)"

definition utf8_decode :: "bytes \<Rightarrow> pystr option" where
  "utf8_decode bs = utf8_go 0 0 0 bs"

text \<open>A symbol found by pyzbar; only its \<^verbatim>\<open>data\<close> (bytes) is read.\<close>

datatype decoded = Decoded (data: bytes)

text \<open>
  The libraries the pipeline calls, for an image type \<open>'img\<close>:
  \<^verbatim>\<open>base64.b64decode\<close> (raises on malformed input), \<^verbatim>\<open>cv2.imdecode\<close> after
  \<^verbatim>\<open>np.frombuffer\<close> (returns \<^verbatim>\<open>None\<close> for bytes that are no image, raises on an empty
  buffer), \<^verbatim>\<open>pyzbar.decode\<close>, and the three OpenCV transforms of
  \<^verbatim>\<open>preprocess_image\<close>, which are total on the 3-channel images \<^verbatim>\<open>imdecode\<close> returns.
\<close>

record 'img cv =
  b64decode :: "pystr \<Rightarrow> exn + bytes"
  imdecode :: "bytes \<Rightarrow> exn + 'img option"
  pyzbar_decode :: "'img \<Rightarrow> decoded list"
  cvtColor_gray :: "'img \<Rightarrow> 'img"
  threshold_binary :: "'img \<Rightarrow> 'img"
  adaptiveThreshold :: "'img \<Rightarrow> 'img"

text \<open>
  The calls the pipeline makes, in order: \<open>Scanned g\<close> is one call of
  \<^verbatim>\<open>pyzbar.decode\<close> on \<open>g\<close>, \<open>Produced g\<close> is one preprocessing variant appended to
  \<^verbatim>\<open>processed_images\<close>.
\<close>

datatype 'img event = Scanned 'img | Produced 'img

definition preprocess_image :: "'img cv \<Rightarrow> 'img \<Rightarrow> 'img list" where
  "preprocess_image cv img =
     (let gray = cvtColor_gray cv img;
          thresh = threshold_binary cv gray;
          adaptive = adaptiveThreshold cv gray
      in [gray, thresh, adaptive])"

text \<open>\<^verbatim>\<open>[barcode.data.decode('utf-8') for barcode in barcodes]\<close>\<close>

fun decode_all :: "decoded list \<Rightarrow> exn + pystr list" where
  "decode_all [] = Inr []"
| "decode_all (barcode # barcodes) =
     (case utf8_decode (data barcode) of
        None \<Rightarrow> Inl UnicodeDecodeError
      | Some t \<Rightarrow>
          (case decode_all barcodes of
             Inl e \<Rightarrow> Inl e
           | Inr ts \<Rightarrow> Inr (t # ts)))"

text \<open>The loop over \<^verbatim>\<open>processed_images\<close>, with the calls it makes.\<close>

fun scan_processed ::
  "'img cv \<Rightarrow> 'img list \<Rightarrow> (exn + pystr list) \<times> 'img event list" where
  "scan_processed cv [] = (Inr [], [])"
| "scan_processed cv (processed_img # rest) =
     (let barcodes = pyzbar_decode cv processed_img in
      if barcodes \<noteq> [] then (decode_all barcodes, [Scanned processed_img])
      else (case scan_processed cv rest of
              (r, tr) \<Rightarrow> (r, Scanned processed_img # tr)))"

text \<open>The body of the \<^verbatim>\<open>try\<close> block.\<close>

definition detect_body ::
  "'img cv \<Rightarrow> pystr \<Rightarrow> (exn + pystr list) \<times> 'img event list" where
  "detect_body cv image_data =
     (case b64decode cv image_data of
        Inl e \<Rightarrow> (Inl e, [])
      | Inr image_bytes \<Rightarrow>
          (case imdecode cv image_bytes of
             Inl e \<Rightarrow> (Inl e, [])
           | Inr None \<Rightarrow> (Inr [], [])
           | Inr (Some img) \<Rightarrow>
               (let barcodes = pyzbar_decode cv img in
                if barcodes \<noteq> [] then (decode_all barcodes, [Scanned img])
                else (let processed_images = preprocess_image cv img in
                      case scan_processed cv processed_images of
                        (r, tr) \<Rightarrow>
                          (r, Scanned img # map Produced processed_images @ tr)))))"

text \<open>\<^verbatim>\<open>except Exception as e: ... return []\<close>\<close>

definition caught :: "exn + pystr list \<Rightarrow> exn + pystr list" where
  "caught r = (case r of Inl e \<Rightarrow> Inr [] | Inr detected \<Rightarrow> Inr detected)"

definition detect_barcodes_with_preprocessing ::
  "'img cv \<Rightarrow> pystr \<Rightarrow> pystr \<Rightarrow> (exn + pystr list) \<times> 'img event list" where
  "detect_barcodes_with_preprocessing cv image_data image_format =
     (case detect_body cv image_data of (r, tr) \<Rightarrow> (caught r, tr))"

section \<open>Python values\<close>

text \<open>
  The values the request handler computes with: what \<^verbatim>\<open>response.json()\<close> returns and
  what \<^verbatim>\<open>food_data\<close> and the columns of a row hold. A float is given by its real
  value (NaN and the infinities, which are truthy, are left out); a \<^verbatim>\<open>dict\<close> is an
  association list in insertion order whose lookups take the first binding of a key; a
  date or timestamp is given by its ISO text.
\<close>

datatype pyval =
    PyNone
  | PyBool bool
  | PyInt int
  | PyFloat real
  | PyStr pystr
  | PyBytes bytes
  | PyList "pyval list"
  | PyDict "(pystr \<times> pyval) list"

type_synonym pydict = "(pystr \<times> pyval) list"

text \<open>Truth value testing, as in \<^verbatim>\<open>if x\<close> and \<^verbatim>\<open>x or y\<close>.\<close>

fun truthy :: "pyval \<Rightarrow> bool" where
  "truthy PyNone = False"
| "truthy (PyBool b) = b"
| "truthy (PyInt n) = (n \<noteq> 0)"
| "truthy (PyFloat x) = (x \<noteq> 0)"
| "truthy (PyStr s) = (s \<noteq> [])"
| "truthy (PyBytes b) = (b \<noteq> [])"
| "truthy (PyList xs) = (xs \<noteq> [])"
| "truthy (PyDict d) = (d \<noteq> [])"

text \<open>\<^verbatim>\<open>x == 0\<close>: numbers compare by value and \<^verbatim>\<open>False == 0\<close>.\<close>

fun eq_zero :: "pyval \<Rightarrow> bool" where
  "eq_zero (PyInt n) = (n = 0)"
| "eq_zero (PyFloat x) = (x = 0)"
| "eq_zero (PyBool b) = (\<not> b)"
| "eq_zero _ = False"

text \<open>\<^verbatim>\<open>d.get(key)\<close>, \<^verbatim>\<open>d.get(key, default)\<close> and \<^verbatim>\<open>d[key]\<close> on a dict.\<close>

definition get :: "pydict \<Rightarrow> pystr \<Rightarrow> pyval" where
  "get d key = (case map_of d key of None \<Rightarrow> PyNone | Some v \<Rightarrow> v)"

definition get_default :: "pydict \<Rightarrow> pystr \<Rightarrow> pyval \<Rightarrow> pyval" where
  "get_default d key dflt = (case map_of d key of None \<Rightarrow> dflt | Some v \<Rightarrow> v)"

definition subscript :: "pydict \<Rightarrow> pystr \<Rightarrow> exn + pyval" where
  "subscript d key = (case map_of d key of None \<Rightarrow> Inl KeyError | Some v \<Rightarrow> Inr v)"

text \<open>
  Attribute access: \<^verbatim>\<open>.get\<close> exists on a dict only, \<^verbatim>\<open>.strip\<close> and \<^verbatim>\<open>.split\<close> on a
  string only; on any other value the access raises AttributeError.
\<close>

definition as_dict :: "pyval \<Rightarrow> exn + pydict" where
  "as_dict v = (case v of PyDict d \<Rightarrow> Inr d | _ \<Rightarrow> Inl AttributeError)"

definition as_str :: "pyval \<Rightarrow> exn + pystr" where
  "as_str v = (case v of PyStr s \<Rightarrow> Inr s | _ \<Rightarrow> Inl AttributeError)"

text \<open>Sequencing of computations that may raise.\<close>

definition bind :: "exn + 'a \<Rightarrow> ('a \<Rightarrow> exn + 'b) \<Rightarrow> exn + 'b" where
  "bind m f = (case m of Inl e \<Rightarrow> Inl e | Inr x \<Rightarrow> f x)"

text \<open>\<^verbatim>\<open>xs[0]\<close>\<close>

definition item0 :: "'a list \<Rightarrow> exn + 'a" where
  "item0 xs = (if xs = [] then Inl IndexError else Inr (hd xs))"

text \<open>
  \<^verbatim>\<open>round(x)\<close> rounds a float to the nearest integer, ties to the even one, and
  returns an \<^verbatim>\<open>int\<close>; an \<^verbatim>\<open>int\<close> or \<^verbatim>\<open>bool\<close> is returned as an \<^verbatim>\<open>int\<close>; other
  values raise TypeError.
\<close>

definition round_half_even :: "real \<Rightarrow> int" where
  "round_half_even x =
     (let f = \<lfloor>x\<rfloor>; d = x - of_int f
      in if d < 1 / 2 then f
         else if 1 / 2 < d then f + 1
         else if even f then f else f + 1)"

fun round0 :: "pyval \<Rightarrow> exn + pyval" where
  "round0 (PyBool b) = Inr (PyInt (if b then 1 else 0))"
| "round0 (PyInt n) = Inr (PyInt n)"
| "round0 (PyFloat x) = Inr (PyInt (round_half_even x))"
| "round0 _ = Inl TypeError"

text \<open>
  \<^verbatim>\<open>round(x, 2)\<close>. On a float the result is again a binary float, the one nearest to
  the decimal rounding; this floating-point step is the parameter \<open>float_round2\<close>.
\<close>

fun round2 :: "(real \<Rightarrow> real) \<Rightarrow> pyval \<Rightarrow> exn + pyval" where
  "round2 float_round2 (PyBool b) = Inr (PyInt (if b then 1 else 0))"
| "round2 float_round2 (PyInt n) = Inr (PyInt n)"
| "round2 float_round2 (PyFloat x) = Inr (PyFloat (float_round2 x))"
| "round2 float_round2 _ = Inl TypeError"

section \<open>main.py: building the food record from the catalog product\<close>

text \<open>
  The entries of the \<^verbatim>\<open>food_data\<close> literal of \<^verbatim>\<open>upload_barcode_image\<close>, one
  definition per entry, in the order the literal evaluates them.
\<close>

definition name_entry :: "pydict \<Rightarrow> exn + pyval" where
  "name_entry product =
     bind (as_str (get_default product (py ''product_name'') (PyStr (py ''Unknown Product''))))
       (\<lambda>s. Inr (PyStr (strip s)))"

definition brand_entry :: "pydict \<Rightarrow> exn + pyval" where
  "brand_entry product =
     bind (as_str (get_default product (py ''brands'') (PyStr [])))
       (\<lambda>s. Inr (if strip s \<noteq> [] then PyStr (strip s) else PyNone))"

definition category_entry :: "pydict \<Rightarrow> exn + pyval" where
  "category_entry product =
     (if truthy (get product (py ''categories''))
      then bind (as_str (get_default product (py ''categories'') (PyStr [])))
             (\<lambda>s. bind (item0 (split 44 s)) (\<lambda>t. Inr (PyStr (strip t))))
      else Inr PyNone)"

definition calories_entry :: "pyval \<Rightarrow> exn + pyval" where
  "calories_entry nutriments =
     bind (as_dict nutriments)
       (\<lambda>n. if truthy (get n (py ''energy-kcal_100g''))
            then round0 (get_default n (py ''energy-kcal_100g'') (PyInt 0))
            else Inr PyNone)"

definition nutrient_entry :: "(real \<Rightarrow> real) \<Rightarrow> pyval \<Rightarrow> pystr \<Rightarrow> exn + pyval" where
  "nutrient_entry float_round2 nutriments key =
     bind (as_dict nutriments)
       (\<lambda>n. if truthy (get n key)
            then round2 float_round2 (get_default n key (PyInt 0))
            else Inr PyNone)"

definition allergens_entry :: "pydict \<Rightarrow> exn + pyval" where
  "allergens_entry product =
     (if truthy (get product (py ''allergens''))
      then bind (as_str (get_default product (py ''allergens'') (PyStr [])))
             (\<lambda>s. Inr (PyList (map PyStr (split 44 s))))
      else Inr (PyList []))"

text \<open>
  \<^verbatim>\<open>{k: v for k, v in food_data.items() if v is not None and v != '' and v != []}\<close>
\<close>

definition remove_none :: "pydict \<Rightarrow> pydict" where
  "remove_none food_data =
     filter (\<lambda>(k, v). v \<noteq> PyNone \<and> v \<noteq> PyStr [] \<and> v \<noteq> PyList []) food_data"

text \<open>
  From \<^verbatim>\<open>nutriments = product.get('nutriments', {})\<close> to the filtered \<^verbatim>\<open>food_data\<close>;
  \<open>product\<close> is the value of \<^verbatim>\<open>response.json()['product']\<close>.
\<close>

definition build_food_data :: "(real \<Rightarrow> real) \<Rightarrow> pystr \<Rightarrow> pyval \<Rightarrow> exn + pydict" where
  "build_food_data float_round2 barcode product_value =
     bind (as_dict product_value) (\<lambda>product.
     let nutriments = get_default product (py ''nutriments'') (PyDict []) in
     bind (name_entry product) (\<lambda>name.
     bind (brand_entry product) (\<lambda>brand.
     bind (category_entry product) (\<lambda>category.
     bind (calories_entry nutriments) (\<lambda>calories.
     bind (nutrient_entry float_round2 nutriments (py ''proteins_100g'')) (\<lambda>protein.
     bind (nutrient_entry float_round2 nutriments (py ''fat_100g'')) (\<lambda>fat.
     bind (nutrient_entry float_round2 nutriments (py ''carbohydrates_100g'')) (\<lambda>carbs.
     bind (nutrient_entry float_round2 nutriments (py ''fiber_100g'')) (\<lambda>fiber.
     bind (nutrient_entry float_round2 nutriments (py ''sugars_100g'')) (\<lambda>sugars.
     bind (nutrient_entry float_round2 nutriments (py ''sodium_100g'')) (\<lambda>sodium.
     bind (allergens_entry product) (\<lambda>allergens.
     Inr (remove_none
       [(py ''barcode'', PyStr barcode),
        (py ''name'', name),
        (py ''brand'', brand),
        (py ''category'', category),
        (py ''calories'', calories),
        (py ''protein'', protein),
        (py ''fat'', fat),
        (py ''carbs'', carbs),
        (py ''fiber'', fiber),
        (py ''sugars'', sugars),
        (py ''sodium'', sodium),
        (py ''allergens'', allergens),
        (py ''quantity'', PyInt 1)])))))))))))))"

section \<open>models.py: rows and the store\<close>

text \<open>
  A \<^verbatim>\<open>Food\<close> object: one field per column, \<open>PyNone\<close> for \<^verbatim>\<open>None\<close>/NULL. The column
  \<^verbatim>\<open>id\<close> is written \<open>id'\<close>.
\<close>

record food =
  id' :: pyval
  barcode :: pyval
  name :: pyval
  brand :: pyval
  category :: pyval
  calories :: pyval
  protein :: pyval
  fat :: pyval
  carbs :: pyval
  fiber :: pyval
  sugars :: pyval
  sodium :: pyval
  allergens :: pyval
  expiry_date :: pyval
  quantity :: pyval
  location :: pyval
  barcode_image_url :: pyval
  barcode_image_data :: pyval
  created_at :: pyval

definition food_columns :: "pystr list" where
  "food_columns =
     [py ''id'', py ''barcode'', py ''name'', py ''brand'', py ''category'',
      py ''calories'', py ''protein'', py ''fat'', py ''carbs'', py ''fiber'',
      py ''sugars'', py ''sodium'', py ''allergens'', py ''expiry_date'',
      py ''quantity'', py ''location'', py ''barcode_image_url'',
      py ''barcode_image_data'', py ''created_at'']"

text \<open>
  \<^verbatim>\<open>Food(**kwargs)\<close>: the constructor takes the mapped attributes, which are the
  columns and the relationship \<^verbatim>\<open>nutrition_logs\<close>; any other keyword raises TypeError. A
  column without a keyword stays \<^verbatim>\<open>None\<close>. A value given for the relationship is no
  column of the row; the handler never gives one.
\<close>

definition food_attributes :: "pystr list" where
  "food_attributes = food_columns @ [py ''nutrition_logs'']"

definition Food :: "pydict \<Rightarrow> exn + food" where
  "Food kwargs =
     (if list_ex (\<lambda>k. k \<notin> set food_attributes) (map fst kwargs) then Inl TypeError
      else Inr \<lparr> id' = get kwargs (py ''id''),
                 barcode = get kwargs (py ''barcode''),
                 name = get kwargs (py ''name''),
                 brand = get kwargs (py ''brand''),
                 category = get kwargs (py ''category''),
                 calories = get kwargs (py ''calories''),
                 protein = get kwargs (py ''protein''),
                 fat = get kwargs (py ''fat''),
                 carbs = get kwargs (py ''carbs''),
                 fiber = get kwargs (py ''fiber''),
                 sugars = get kwargs (py ''sugars''),
                 sodium = get kwargs (py ''sodium''),
                 allergens = get kwargs (py ''allergens''),
                 expiry_date = get kwargs (py ''expiry_date''),
                 quantity = get kwargs (py ''quantity''),
                 location = get kwargs (py ''location''),
                 barcode_image_url = get kwargs (py ''barcode_image_url''),
                 barcode_image_data = get kwargs (py ''barcode_image_data''),
                 created_at = get kwargs (py ''created_at'') \<rparr>)"

text \<open>
  \<^verbatim>\<open>Food.to_dict\<close>. The entry for \<^verbatim>\<open>barcode_image_data\<close> calls
  \<^verbatim>\<open>self.barcode_image_data.decode('base64')\<close> when the column is truthy; in Python 3
  \<^verbatim>\<open>'base64'\<close> is not a text encoding and the call raises LookupError. The other entries
  do not raise (\<^verbatim>\<open>isoformat\<close> of a date given by its ISO text is that text).
\<close>

definition to_dict :: "food \<Rightarrow> exn + pydict" where
  "to_dict self =
     (if truthy (barcode_image_data self) then Inl LookupError
      else Inr
        [(py ''id'', id' self),
         (py ''barcode'', barcode self),
         (py ''name'', name self),
         (py ''brand'', brand self),
         (py ''category'', category self),
         (py ''calories'', calories self),
         (py ''protein'', protein self),
         (py ''fat'', fat self),
         (py ''carbs'', carbs self),
         (py ''fiber'', fiber self),
         (py ''sugars'', sugars self),
         (py ''sodium'', sodium self),
         (py ''allergens'', allergens self),
         (py ''expiry_date'', if truthy (expiry_date self) then expiry_date self else PyNone),
         (py ''quantity'', quantity self),
         (py ''location'', location self),
         (py ''barcode_image_url'', barcode_image_url self),
         (py ''barcode_image_data'', PyNone),
         (py ''created_at'', if truthy (created_at self) then created_at self else PyNone)])"

text \<open>A \<^verbatim>\<open>NutritionLog\<close> row.\<close>

record nutrition_log =
  id' :: pystr
  food_id :: pystr
  quantity :: int
  timestamp :: pystr
  action :: pystr

text \<open>The check constraint \<^verbatim>\<open>check_valid_action\<close> of the table.\<close>

definition valid_actions :: "pystr list" where
  "valid_actions = [py ''added'', py ''removed'', py ''consumed'', py ''expired'']"

text \<open>The store behind a \<^verbatim>\<open>Session\<close>: the committed rows of both tables, oldest first.\<close>

record db =
  foods :: "food list"
  nutrition_logs :: "nutrition_log list"

section \<open>crud.py\<close>

text \<open>
  What \<^verbatim>\<open>db.commit()\<close> does to a new \<^verbatim>\<open>Food\<close>: the column defaults (\<^verbatim>\<open>id\<close> a fresh
  UUID, \<^verbatim>\<open>quantity\<close> 0, \<^verbatim>\<open>created_at\<close> the server time) fill what is unset, and the
  primary key and the two \<^verbatim>\<open>nullable=False\<close> columns are checked. Other reasons for a
  commit to fail (a lost connection, a value the driver cannot bind) are outside the model.
\<close>

definition with_defaults :: "food \<Rightarrow> pystr \<Rightarrow> pystr \<Rightarrow> food" where
  "with_defaults row new_id now =
     row \<lparr> food.id' := (if food.id' row = PyNone then PyStr new_id else food.id' row),
           food.quantity := (if food.quantity row = PyNone then PyInt 0 else food.quantity row),
           created_at := (if created_at row = PyNone then PyStr now else created_at row) \<rparr>"

definition constraints_ok :: "db \<Rightarrow> food \<Rightarrow> bool" where
  "constraints_ok d row =
     (barcode row \<noteq> PyNone \<and> name row \<noteq> PyNone
      \<and> \<not> list_ex (\<lambda>f. food.id' f = food.id' row) (foods d))"

text \<open>
  \<^verbatim>\<open>create_food\<close>: on any exception the session is rolled back and the exception is
  raised again, so the store is the one before the call.
\<close>

definition create_food :: "db \<Rightarrow> pydict \<Rightarrow> pystr \<Rightarrow> pystr \<Rightarrow> (exn + food) \<times> db" where
  "create_food d food_data new_id now =
     (case Food food_data of
        Inl e \<Rightarrow> (Inl e, d)
      | Inr obj \<Rightarrow>
          (let row = with_defaults obj new_id now in
           if constraints_ok d row then (Inr row, d \<lparr> foods := foods d @ [row] \<rparr>)
           else (Inl IntegrityError, d)))"

text \<open>\<^verbatim>\<open>db.query(Food).filter(Food.barcode == barcode).first()\<close>\<close>

definition get_food_by_barcode :: "db \<Rightarrow> pystr \<Rightarrow> food option" where
  "get_food_by_barcode d bc = find (\<lambda>f. barcode f = PyStr bc) (foods d)"

text \<open>
  The \<^verbatim>\<open>INTEGER\<close> column of the default store (SQLite) holds 64-bit signed values;
  binding a larger Python \<^verbatim>\<open>int\<close> raises OverflowError.
\<close>

definition integer_max :: int where
  "integer_max = 9223372036854775807"

text \<open>
  \<^verbatim>\<open>update_quantity\<close>. The session adds one \<^verbatim>\<open>NutritionLog\<close> and commits; the commit
  fails when the quantity does not fit the column and on the check constraint of
  \<^verbatim>\<open>action\<close>; then the session is rolled back and the exception raised again. The
  source comment leaves the food's quantity to a trigger of the database; the
  repository defines none (\<^verbatim>\<open>setup.py\<close> and \<^verbatim>\<open>create_tables\<close> create the two tables
  only), so the row that \<^verbatim>\<open>db.refresh(food)\<close> reads back is the one that was found.
  \<open>new_id\<close> and \<open>now\<close> are the generated \<^verbatim>\<open>id\<close> and \<^verbatim>\<open>timestamp\<close> of the log row.
\<close>

definition update_quantity ::
  "db \<Rightarrow> pystr \<Rightarrow> int \<Rightarrow> pystr \<Rightarrow> pystr \<Rightarrow> pystr \<Rightarrow> (exn + food option) \<times> db" where
  "update_quantity d fid quantity_change act new_id now =
     (case find (\<lambda>f. food.id' f = PyStr fid) (foods d) of
        None \<Rightarrow> (Inr None, d)
      | Some row \<Rightarrow>
          (let entry = \<lparr> id' = new_id, food_id = fid, quantity = \<bar>quantity_change\<bar>,
                        timestamp = now, action = act \<rparr>
           in if integer_max < \<bar>quantity_change\<bar> then (Inl OverflowError, d)
              else if act \<in> set valid_actions
              then (Inr (Some row), d \<lparr> nutrition_logs := nutrition_logs d @ [entry] \<rparr>)
              else (Inl IntegrityError, d)))"

section \<open>schemas.py: the request and the response of the upload endpoint\<close>

record request =
  imageData :: pystr
  imageFormat :: pystr
  action :: pystr

text \<open>
  Texts built from an exception: \<open>StrExn e\<close> is \<^verbatim>\<open>str(e)\<close> and \<open>LitStrExn s e\<close> is the
  literal \<open>s\<close> followed by \<^verbatim>\<open>str(e)\<close>.
\<close>

datatype errtext = Lit pystr | StrExn exn | LitStrExn pystr exn

record response =
  success :: bool
  barcode :: "pystr option"
  product_data :: "pydict option"
  message :: pystr
  error :: "errtext option"

section \<open>main.py: the upload endpoint\<close>

text \<open>
  What a call of the endpoint ends with: a \<^verbatim>\<open>BarcodeImageUploadResponse\<close> that is
  returned, or an \<^verbatim>\<open>HTTPException\<close> (status code and detail) that is raised.
\<close>

datatype result = Returned response | HTTPException nat errtext

text \<open>What is raised inside the outer \<^verbatim>\<open>try\<close>: an \<^verbatim>\<open>HTTPException\<close> or another exception.\<close>

datatype raised = Http nat errtext | Exc exn

text \<open>\<^verbatim>\<open>requests.Response\<close>: the status code and what \<^verbatim>\<open>response.json()\<close> does.\<close>

record http_response =
  status_code :: int
  json :: "exn + pyval"

text \<open>
  What the handler takes from outside the process: \<^verbatim>\<open>requests.get(url, timeout=10)\<close>
  (raises on a network failure or a timeout), the floating-point \<^verbatim>\<open>round(x, 2)\<close>, and
  the UUID and server time given to a created row.
\<close>

record runtime =
  http_get :: "pystr \<Rightarrow> exn + http_response"
  float_round2 :: "real \<Rightarrow> real"
  uuid4 :: pystr
  now :: pystr

text \<open>The responses the handler returns, in the order of the source.\<close>

definition no_barcode_response :: response where
  "no_barcode_response =
     \<lparr> success = False, barcode = None, product_data = None,
       message = py ''No barcode detected in the uploaded image'',
       error = Some (Lit (py ''No barcode found'')) \<rparr>"

definition invalid_format_response :: response where
  "invalid_format_response =
     \<lparr> success = False, barcode = None, product_data = None,
       message = py ''Invalid barcode format detected'',
       error = Some (Lit (py ''Invalid barcode format'')) \<rparr>"

definition product_not_found_response :: "pystr \<Rightarrow> response" where
  "product_not_found_response bc =
     \<lparr> success = True, barcode = Some bc, product_data = None,
       message = py ''Barcode detected but product not found in OpenFoodFacts database'',
       error = None \<rparr>"

definition fetch_error_response :: "exn \<Rightarrow> response" where
  "fetch_error_response e =
     \<lparr> success = False, barcode = None, product_data = None,
       message = py ''Error fetching product data from OpenFoodFacts'',
       error = Some (StrExn e) \<rparr>"

definition already_exists_response :: "pystr \<Rightarrow> pydict \<Rightarrow> response" where
  "already_exists_response bc existing =
     \<lparr> success = True, barcode = Some bc, product_data = Some existing,
       message = py ''Barcode detected and food already exists in database'',
       error = None \<rparr>"

definition saved_response :: "pystr \<Rightarrow> pydict \<Rightarrow> response" where
  "saved_response bc created =
     \<lparr> success = True, barcode = Some bc, product_data = Some created,
       message = py ''Barcode detected and product saved to database'',
       error = None \<rparr>"

definition save_failed_response :: "pystr \<Rightarrow> pydict \<Rightarrow> response" where
  "save_failed_response bc food_data =
     \<lparr> success = True, barcode = Some bc, product_data = Some food_data,
       message = py ''Barcode detected but error occurred while saving to database'',
       error = None \<rparr>"

definition scan_response :: "pystr \<Rightarrow> pydict \<Rightarrow> response" where
  "scan_response bc food_data =
     \<lparr> success = True, barcode = Some bc, product_data = Some food_data,
       message = py ''Barcode detected successfully'',
       error = None \<rparr>"

definition openfoodfacts_url :: "pystr \<Rightarrow> pystr" where
  "openfoodfacts_url bc =
     py ''https://world.openfoodfacts.org/api/v0/product/'' @ bc @ py ''.json''"

text \<open>
  The inner \<^verbatim>\<open>try\<close> around the catalog request: \<open>Inl\<close> is the response the handler
  returns at once, \<open>Inr\<close> the HTTP response it goes on with.
\<close>

definition fetch_product :: "runtime \<Rightarrow> pystr \<Rightarrow> response + http_response" where
  "fetch_product rt bc =
     (case http_get rt (openfoodfacts_url bc) of
        Inl e \<Rightarrow> Inl (fetch_error_response e)
      | Inr resp \<Rightarrow>
          if status_code resp \<noteq> 200 then Inl (product_not_found_response bc)
          else (case bind (json resp) as_dict of
                  Inl e \<Rightarrow> Inl (fetch_error_response e)
                | Inr body \<Rightarrow>
                    if eq_zero (get body (py ''status''))
                    then Inl (product_not_found_response bc)
                    else Inr resp))"

text \<open>
  The inner \<^verbatim>\<open>try\<close> of the \<^verbatim>\<open>scan_and_save\<close> branch. A \<^verbatim>\<open>Food\<close> object is always
  truthy, so \<^verbatim>\<open>if existing_food\<close> tests that a row was found.
\<close>

definition save_product :: "runtime \<Rightarrow> pystr \<Rightarrow> pydict \<Rightarrow> db \<Rightarrow> response \<times> db" where
  "save_product rt bc food_data d =
     (case get_food_by_barcode d bc of
        Some existing_food \<Rightarrow>
          (case to_dict existing_food of
             Inl e \<Rightarrow> (save_failed_response bc food_data, d)
           | Inr existing \<Rightarrow> (already_exists_response bc existing, d))
      | None \<Rightarrow>
          (case create_food d food_data (uuid4 rt) (now rt) of
             (Inl e, d') \<Rightarrow> (save_failed_response bc food_data, d')
           | (Inr created_food, d') \<Rightarrow>
               (case to_dict created_food of
                  Inl e \<Rightarrow> (save_failed_response bc food_data, d')
                | Inr created \<Rightarrow> (saved_response bc created, d'))))"

text \<open>The body of the outer \<^verbatim>\<open>try\<close>.\<close>

definition upload_body ::
  "'img cv \<Rightarrow> runtime \<Rightarrow> request \<Rightarrow> db \<Rightarrow> (raised + response) \<times> db" where
  "upload_body cv rt req d =
     (if action req \<notin> set [py ''scan'', py ''scan_and_save'']
      then (Inl (Http 400 (Lit (py ''Action must be 'scan' or 'scan_and_save'' @ [39]))), d)
      else
        (case fst (detect_barcodes_with_preprocessing cv (imageData req) (imageFormat req)) of
           Inl e \<Rightarrow> (Inl (Exc e), d)
         | Inr [] \<Rightarrow> (Inr no_barcode_response, d)
         | Inr (bc # others) \<Rightarrow>
             if \<not> validate_barcode_format bc then (Inr invalid_format_response, d)
             else
               (case fetch_product rt bc of
                  Inl early \<Rightarrow> (Inr early, d)
                | Inr resp \<Rightarrow>
                    (case bind (json resp)
                            (\<lambda>body. case body of
                                       PyDict b \<Rightarrow> subscript b (py ''product'')
                                     | _ \<Rightarrow> Inl TypeError) of
                       Inl e \<Rightarrow> (Inl (Exc e), d)
                     | Inr product \<Rightarrow>
                         (case build_food_data (float_round2 rt) bc product of
                            Inl e \<Rightarrow> (Inl (Exc e), d)
                          | Inr food_data \<Rightarrow>
                              if action req = py ''scan_and_save''
                              then (case save_product rt bc food_data d of
                                      (r, d') \<Rightarrow> (Inr r, d'))
                              else (Inr (scan_response bc food_data), d))))))"

text \<open>
  \<^verbatim>\<open>except HTTPException: raise\<close> and
  \<^verbatim>\<open>except Exception as e: raise HTTPException(500, ...)\<close>.
\<close>

definition upload_barcode_image ::
  "'img cv \<Rightarrow> runtime \<Rightarrow> request \<Rightarrow> db \<Rightarrow> result \<times> db" where
  "upload_barcode_image cv rt req d =
     (case upload_body cv rt req d of
        (Inl (Http code detail), d') \<Rightarrow> (HTTPException code detail, d')
      | (Inl (Exc e), d') \<Rightarrow>
          (HTTPException 500 (LitStrExn (py ''Error processing barcode image: '') e), d')
      | (Inr r, d') \<Rightarrow> (Returned r, d'))"

section \<open>Example collaborators\<close>

text \<open>
  Stand-ins for the libraries, for concrete runs. Images are numbers: the decoded
  original is 0 and the grayscale, threshold and adaptive variants are 1, 2 and 3. The
  base64 text \<open>!\<close> is malformed, other text is taken as the bytes themselves; bytes
  that start with 255 decode to the image 0, the empty buffer makes \<^verbatim>\<open>imdecode\<close> raise,
  anything else is no image. The detector finds \<open>symbols\<close> on image \<open>k\<close> and nothing
  elsewhere.
\<close>

definition cv_example :: "nat \<Rightarrow> decoded list \<Rightarrow> nat cv" where
  "cv_example k symbols =
     \<lparr> b64decode = (\<lambda>s. if s = py ''!'' then Inl (LibraryError (py ''Incorrect padding''))
                         else Inr s),
       imdecode = (\<lambda>bs. case bs of
                           [] \<Rightarrow> Inl (LibraryError (py ''empty buffer''))
                         | b # _ \<Rightarrow> if b = 255 then Inr (Some 0) else Inr None),
       pyzbar_decode = (\<lambda>img. if img = k then symbols else []),
       cvtColor_gray = (\<lambda>img. 1),
       threshold_binary = (\<lambda>img. 2),
       adaptiveThreshold = (\<lambda>img. 3) \<rparr>"

definition ean8 :: decoded where
  "ean8 = Decoded [49, 50, 51, 52, 53, 54, 55, 56]"

text \<open>A runtime whose catalog request always ends the same way.\<close>

definition rt_example :: "exn + http_response \<Rightarrow> runtime" where
  "rt_example reply =
     \<lparr> http_get = (\<lambda>url. reply), float_round2 = (\<lambda>x. x),
       uuid4 = py ''id-1'', now = py ''2024-01-02T00:00:00'' \<rparr>"

definition req_example :: "pystr \<Rightarrow> request" where
  "req_example act = \<lparr> imageData = [255], imageFormat = py ''jpeg'', action = act \<rparr>"

definition db_empty :: db where
  "db_empty = \<lparr> foods = [], nutrition_logs = [] \<rparr>"

text \<open>A store with one row, for the barcode 12345678.\<close>

definition db_one :: db where
  "db_one =
     snd (create_food db_empty
            [(py ''barcode'', PyStr (py ''12345678'')), (py ''name'', PyStr (py ''Oat milk''))]
            (py ''id-0'') (py ''2024-01-01T00:00:00''))"

text \<open>The same store, with barcode image data (the first bytes of a PNG) on the row.\<close>

definition db_image :: db where
  "db_image =
     db_one \<lparr> foods := map (\<lambda>f. f \<lparr> barcode_image_data := PyBytes [137, 80, 78, 71] \<rparr>)
                           (foods db_one) \<rparr>"

section \<open>The format check\<close>

lemma ascii_digit_isdigit_char: "ascii_digit c \<Longrightarrow> isdigit_char c"
  by (simp add: ascii_digit_def isdigit_char_def in_ranges_def digit_ranges_def)

lemma isdigit_char_ascii: "isdigit_char c \<Longrightarrow> c < 128 \<Longrightarrow> ascii_digit c"
  by (auto simp add: ascii_digit_def isdigit_char_def in_ranges_def digit_ranges_def)

text \<open>
  C4, as stated: the validator accepts a text if and only if all its characters are
  ASCII digits and its length is 8, 12, 13 or 14. This fails: the eight Arabic-Indic
  digits U+0661 .. U+0668 are digits for \<^verbatim>\<open>str.isdigit\<close>, so the validator accepts
  them, and none of them is an ASCII digit.
\<close>

theorem validate_barcode_format_ascii_counterexample:
  "validate_barcode_format [1633, 1634, 1635, 1636, 1637, 1638, 1639, 1640]
   \<and> \<not> spec_isValidBarcode [1633, 1634, 1635, 1636, 1637, 1638, 1639, 1640]"
  by (simp add: validate_barcode_format_def isdigit_def isdigit_char_def in_ranges_def
      digit_ranges_def valid_lengths_def spec_isValidBarcode_def ascii_digit_def)

text \<open>
  C4, amended: the validator accepts a text if and only if every character is a digit
  in the sense of \<^verbatim>\<open>str.isdigit\<close> (a Unicode digit, ASCII or not) and the length is 8,
  12, 13 or 14. Every text the specification's rule accepts is accepted, and on texts
  of ASCII characters the validator and the specification's rule agree.
\<close>

theorem validate_barcode_format_unicode_digits:
  "(validate_barcode_format text \<longleftrightarrow>
      list_all isdigit_char text \<and> length text \<in> {8, 12, 13, 14})
   \<and> (spec_isValidBarcode text \<longrightarrow> validate_barcode_format text)
   \<and> (list_all (\<lambda>c. c < 128) text \<longrightarrow>
        (validate_barcode_format text \<longleftrightarrow> spec_isValidBarcode text))"
proof -
  have shape: "validate_barcode_format text \<longleftrightarrow>
      list_all isdigit_char text \<and> length text \<in> {8, 12, 13, 14}"
    by (auto simp add: validate_barcode_format_def isdigit_def valid_lengths_def)
  have up: "list_all ascii_digit text \<Longrightarrow> list_all isdigit_char text"
    by (simp add: list_all_iff ascii_digit_isdigit_char)
  have down: "list_all (\<lambda>c. c < 128) text \<Longrightarrow> list_all isdigit_char text
      \<Longrightarrow> list_all ascii_digit text"
    by (simp add: list_all_iff isdigit_char_ascii)
  show ?thesis
    unfolding shape spec_isValidBarcode_def using up down by blast
qed

theorem validate_barcode_format_unicode_digits_witness:
  "spec_isValidBarcode (py ''12345678'') \<and> validate_barcode_format (py ''12345678'')"
proof -
  have h: "spec_isValidBarcode (py ''12345678'')"
    by (simp add: spec_isValidBarcode_def ascii_digit_def py_def)
  from validate_barcode_format_unicode_digits [of "py ''12345678''"]
  have "spec_isValidBarcode (py ''12345678'') \<longrightarrow> validate_barcode_format (py ''12345678'')"
    by (rule conjunct1 [OF conjunct2])
  then have "validate_barcode_format (py ''12345678'')" using h by (rule mp)
  with h show ?thesis by (rule conjI)
qed

section \<open>The detection pipeline\<close>

lemma cv_example_simps:
  "b64decode (cv_example k symbols) s =
     (if s = py ''!'' then Inl (LibraryError (py ''Incorrect padding'')) else Inr s)"
  "imdecode (cv_example k symbols) bs =
     (case bs of [] \<Rightarrow> Inl (LibraryError (py ''empty buffer''))
      | b # _ \<Rightarrow> if b = 255 then Inr (Some 0) else Inr None)"
  "pyzbar_decode (cv_example k symbols) img = (if img = k then symbols else [])"
  "cvtColor_gray (cv_example k symbols) img = 1"
  "threshold_binary (cv_example k symbols) img = 2"
  "adaptiveThreshold (cv_example k symbols) img = 3"
  by (simp_all add: cv_example_def)

text \<open>
  What the function returns for a detector result: the texts of the symbols when every
  payload is valid UTF-8, and the empty list (through the \<^verbatim>\<open>except\<close> clause) when one
  is not.
\<close>

lemma caught_decode_all:
  "caught (decode_all symbols) =
     Inr (case those (map (\<lambda>b. utf8_decode (data b)) symbols) of
            None \<Rightarrow> [] | Some texts \<Rightarrow> texts)"
proof -
  have "decode_all symbols =
          (case those (map (\<lambda>b. utf8_decode (data b)) symbols) of
             None \<Rightarrow> Inl UnicodeDecodeError | Some texts \<Rightarrow> Inr texts)"
    by (induction symbols) (auto split: option.splits sum.splits)
  then show ?thesis
    by (simp add: caught_def split: option.splits)
qed

text \<open>The pipeline returns a list on every input: no exception leaves it.\<close>

lemma detect_raises_nothing:
  "\<exists>detected tr. detect_barcodes_with_preprocessing cv image_data image_format
      = (Inr detected, tr)"
  by (cases "detect_body cv image_data")
     (auto simp: detect_barcodes_with_preprocessing_def caught_def split: sum.splits)

text \<open>
  C7: for an input that does not decode as an image (the base64 text is malformed, or
  \<^verbatim>\<open>cv2.imdecode\<close> returns \<^verbatim>\<open>None\<close> or raises), the pipeline returns the empty list;
  it raises nothing and calls neither the detector nor the preprocessing.
\<close>

theorem detect_undecodable_image_empty:
  assumes "(\<exists>e. b64decode cv image_data = Inl e)
     \<or> (\<exists>image_bytes. b64decode cv image_data = Inr image_bytes
            \<and> (imdecode cv image_bytes = Inr None
                 \<or> (\<exists>e. imdecode cv image_bytes = Inl e)))"
  shows "detect_barcodes_with_preprocessing cv image_data image_format = (Inr [], [])"
  using assms
  by (auto simp: detect_barcodes_with_preprocessing_def detect_body_def caught_def)

theorem detect_undecodable_image_empty_witness:
  "detect_barcodes_with_preprocessing (cv_example 0 [ean8]) (py ''GIF'') (py ''jpeg'')
     = (Inr [], [])"
proof -
  have "\<exists>image_bytes. b64decode (cv_example 0 [ean8]) (py ''GIF'') = Inr image_bytes
          \<and> (imdecode (cv_example 0 [ean8]) image_bytes = Inr None
               \<or> (\<exists>e. imdecode (cv_example 0 [ean8]) image_bytes = Inl e))"
    by (simp add: cv_example_simps py_def)
  then have "(\<exists>e. b64decode (cv_example 0 [ean8]) (py ''GIF'') = Inl e)
     \<or> (\<exists>image_bytes. b64decode (cv_example 0 [ean8]) (py ''GIF'') = Inr image_bytes
            \<and> (imdecode (cv_example 0 [ean8]) image_bytes = Inr None
                 \<or> (\<exists>e. imdecode (cv_example 0 [ean8]) image_bytes = Inl e)))"
    by (rule disjI2)
  then show ?thesis by (rule detect_undecodable_image_empty)
qed

text \<open>
  For symbols whose payloads are valid UTF-8 (a decoded symbol's text is bytes
  interpretable as UTF-8), the list comprehension gives one text per symbol, in order.
\<close>

lemma decode_all_utf8:
  assumes "list_all (\<lambda>b. utf8_decode (data b) \<noteq> None) symbols"
  shows "decode_all symbols = Inr (map (\<lambda>b. the (utf8_decode (data b))) symbols)"
  using assms by (induction symbols) auto

text \<open>
  C5: on a decoded image, with a detector whose symbols carry UTF-8 payloads, the
  pipeline scans the original first; if the detector finds something there, the texts
  of that result are returned and no variant is produced or scanned. Otherwise the
  grayscale, fixed-threshold and adaptive-threshold variants are produced and scanned in
  exactly that order; the pipeline returns the texts of the detector's result on the
  first variant on which it is non-empty and never scans a later variant; if no variant
  yields anything it returns the empty list. The second component is the list of the
  calls made, in order.
\<close>

theorem detect_cascade_order:
  assumes "b64decode cv image_data = Inr image_bytes"
    and "imdecode cv image_bytes = Inr (Some img)"
    and "gray = cvtColor_gray cv img"
    and "thresh = threshold_binary cv gray"
    and "adaptive = adaptiveThreshold cv gray"
    and utf8: "\<forall>g. list_all (\<lambda>b. utf8_decode (data b) \<noteq> None) (pyzbar_decode cv g)"
  shows "detect_barcodes_with_preprocessing cv image_data image_format =
     (if pyzbar_decode cv img \<noteq> [] then
        (Inr (map (\<lambda>b. the (utf8_decode (data b))) (pyzbar_decode cv img)),
         [Scanned img])
      else if pyzbar_decode cv gray \<noteq> [] then
        (Inr (map (\<lambda>b. the (utf8_decode (data b))) (pyzbar_decode cv gray)),
         [Scanned img, Produced gray, Produced thresh, Produced adaptive, Scanned gray])
      else if pyzbar_decode cv thresh \<noteq> [] then
        (Inr (map (\<lambda>b. the (utf8_decode (data b))) (pyzbar_decode cv thresh)),
         [Scanned img, Produced gray, Produced thresh, Produced adaptive, Scanned gray,
          Scanned thresh])
      else if pyzbar_decode cv adaptive \<noteq> [] then
        (Inr (map (\<lambda>b. the (utf8_decode (data b))) (pyzbar_decode cv adaptive)),
         [Scanned img, Produced gray, Produced thresh, Produced adaptive, Scanned gray,
          Scanned thresh, Scanned adaptive])
      else
        (Inr [],
         [Scanned img, Produced gray, Produced thresh, Produced adaptive, Scanned gray,
          Scanned thresh, Scanned adaptive]))"
proof -
  have d: "decode_all (pyzbar_decode cv g)
             = Inr (map (\<lambda>b. the (utf8_decode (data b))) (pyzbar_decode cv g))" for g
    using utf8 by (simp add: decode_all_utf8)
  show ?thesis
    using assms(1-5)
    by (simp add: detect_barcodes_with_preprocessing_def detect_body_def
        preprocess_image_def Let_def d caught_def)
qed

theorem detect_cascade_order_witness:
  "detect_barcodes_with_preprocessing (cv_example 2 [ean8]) [255] (py ''jpeg'') =
     (Inr [py ''12345678''],
      [Scanned 0, Produced 1, Produced 2, Produced 3, Scanned 1, Scanned 2])"
proof -
  have a: "b64decode (cv_example 2 [ean8]) [255] = Inr [255]"
    by (simp add: cv_example_simps py_def)
  have b: "imdecode (cv_example 2 [ean8]) [255] = Inr (Some 0)"
    by (simp add: cv_example_simps)
  have c: "1 = cvtColor_gray (cv_example 2 [ean8]) 0"
    "2 = threshold_binary (cv_example 2 [ean8]) 1"
    "3 = adaptiveThreshold (cv_example 2 [ean8]) 1"
    by (simp_all add: cv_example_simps)
  have u: "\<forall>g. list_all (\<lambda>b. utf8_decode (data b) \<noteq> None)
             (pyzbar_decode (cv_example 2 [ean8]) g)"
    by (simp add: cv_example_simps ean8_def utf8_decode_def)
  show ?thesis
    using detect_cascade_order [OF a b c u, of "py ''jpeg''"]
    by (simp add: cv_example_simps ean8_def utf8_decode_def py_def)
qed

section \<open>The food record\<close>

lemmas entry_defs = name_entry_def brand_entry_def category_entry_def calories_entry_def
  nutrient_entry_def allergens_entry_def
lemmas py_eval = py_def get_def get_default_def as_dict_def as_str_def bind_def item0_def
  remove_none_def strip_def isspace_char_def in_ranges_def space_ranges_def

lemma split_nonempty: "split sep s \<noteq> []"
  by (induction s) (auto split: list.splits)

lemma bindE:
  assumes "bind m f = Inr y"
  obtains x where "m = Inr x" and "f x = Inr y"
  using assms by (cases m) (auto simp: bind_def)

text \<open>What a successful run of the builder has computed, entry by entry.\<close>

lemma build_food_data_Inr:
  assumes "build_food_data r bc (PyDict product) = Inr food_data"
  obtains nm br cat cal pr ft cb fb sg so al where
    "name_entry product = Inr nm" "brand_entry product = Inr br"
    "category_entry product = Inr cat"
    "calories_entry (get_default product (py ''nutriments'') (PyDict [])) = Inr cal"
    "nutrient_entry r (get_default product (py ''nutriments'') (PyDict [])) (py ''proteins_100g'') = Inr pr"
    "nutrient_entry r (get_default product (py ''nutriments'') (PyDict [])) (py ''fat_100g'') = Inr ft"
    "nutrient_entry r (get_default product (py ''nutriments'') (PyDict [])) (py ''carbohydrates_100g'') = Inr cb"
    "nutrient_entry r (get_default product (py ''nutriments'') (PyDict [])) (py ''fiber_100g'') = Inr fb"
    "nutrient_entry r (get_default product (py ''nutriments'') (PyDict [])) (py ''sugars_100g'') = Inr sg"
    "nutrient_entry r (get_default product (py ''nutriments'') (PyDict [])) (py ''sodium_100g'') = Inr so"
    "allergens_entry product = Inr al"
    "food_data = remove_none
       [(py ''barcode'', PyStr bc), (py ''name'', nm), (py ''brand'', br),
        (py ''category'', cat), (py ''calories'', cal), (py ''protein'', pr),
        (py ''fat'', ft), (py ''carbs'', cb), (py ''fiber'', fb), (py ''sugars'', sg),
        (py ''sodium'', so), (py ''allergens'', al), (py ''quantity'', PyInt 1)]"
  using assms unfolding build_food_data_def Let_def as_dict_def
  by (auto elim!: bindE)
text \<open>Looking a key up in the filtered record.\<close>

lemma map_of_filter_snd:
  "distinct (map fst xs) \<Longrightarrow>
   map_of (filter (\<lambda>(k, v). Q v) xs) key =
     (case map_of xs key of None \<Rightarrow> None | Some v \<Rightarrow> if Q v then Some v else None)"
proof (induction xs)
  case Nil
  then show ?case by simp
next
  case (Cons x xs)
  obtain k v where x: "x = (k, v)" by (cases x)
  from Cons.prems x have notin: "k \<notin> fst ` set xs" by simp
  then have "map_of xs k = None" by (simp add: map_of_eq_None_iff)
  with Cons x show ?case by (auto split: option.splits)
qed

lemma lookup_food_data:
  "map_of (remove_none
       [(py ''barcode'', bcv), (py ''name'', nm), (py ''brand'', br),
        (py ''category'', cat), (py ''calories'', cal), (py ''protein'', pr),
        (py ''fat'', ft), (py ''carbs'', cb), (py ''fiber'', fb), (py ''sugars'', sg),
        (py ''sodium'', so), (py ''allergens'', al), (py ''quantity'', q)]) key =
   (case map_of
       [(py ''barcode'', bcv), (py ''name'', nm), (py ''brand'', br),
        (py ''category'', cat), (py ''calories'', cal), (py ''protein'', pr),
        (py ''fat'', ft), (py ''carbs'', cb), (py ''fiber'', fb), (py ''sugars'', sg),
        (py ''sodium'', so), (py ''allergens'', al), (py ''quantity'', q)] key of
      None \<Rightarrow> None
    | Some v \<Rightarrow> if v \<noteq> PyNone \<and> v \<noteq> PyStr [] \<and> v \<noteq> PyList [] then Some v else None)"
  unfolding remove_none_def
  by (rule map_of_filter_snd) (simp add: py_def)

lemma nutrient_entry_falsy:
  assumes "nutrient_entry r (PyDict n) key = Inr v" and "\<not> truthy (get n key)"
  shows "v = PyNone"
  using assms by (simp add: nutrient_entry_def as_dict_def bind_def)

lemma calories_entry_falsy:
  assumes "calories_entry (PyDict n) = Inr v" and "\<not> truthy (get n (py ''energy-kcal_100g''))"
  shows "v = PyNone"
  using assms by (simp add: calories_entry_def as_dict_def bind_def)

text \<open>
  C6: in the record the builder returns, a nutrient whose source field in
  \<^verbatim>\<open>nutriments\<close> is missing or falsy (\<^verbatim>\<open>None\<close>, 0, 0.0, \<^verbatim>\<open>False\<close>, an empty string, list
  or dict) has no entry: calories, protein, fat, carbs, fiber, sugars and sodium
  alike. The witness is the payload with \<^verbatim>\<open>proteins_100g = 0\<close> and no other nutrient:
  its record has the barcode, the default name and the quantity, and no protein.
\<close>

theorem falsy_nutrient_absent:
  assumes ok: "build_food_data r bc (PyDict product) = Inr food_data"
    and n: "get_default product (py ''nutriments'') (PyDict []) = PyDict nutriments"
  shows "(\<not> truthy (get nutriments (py ''energy-kcal_100g'')) \<longrightarrow>
            map_of food_data (py ''calories'') = None)
       \<and> (\<not> truthy (get nutriments (py ''proteins_100g'')) \<longrightarrow>
            map_of food_data (py ''protein'') = None)
       \<and> (\<not> truthy (get nutriments (py ''fat_100g'')) \<longrightarrow>
            map_of food_data (py ''fat'') = None)
       \<and> (\<not> truthy (get nutriments (py ''carbohydrates_100g'')) \<longrightarrow>
            map_of food_data (py ''carbs'') = None)
       \<and> (\<not> truthy (get nutriments (py ''fiber_100g'')) \<longrightarrow>
            map_of food_data (py ''fiber'') = None)
       \<and> (\<not> truthy (get nutriments (py ''sugars_100g'')) \<longrightarrow>
            map_of food_data (py ''sugars'') = None)
       \<and> (\<not> truthy (get nutriments (py ''sodium_100g'')) \<longrightarrow>
            map_of food_data (py ''sodium'') = None)"
proof -
  from ok obtain nm br cat cal pr ft cb fb sg so al where
    e: "calories_entry (PyDict nutriments) = Inr cal"
       "nutrient_entry r (PyDict nutriments) (py ''proteins_100g'') = Inr pr"
       "nutrient_entry r (PyDict nutriments) (py ''fat_100g'') = Inr ft"
       "nutrient_entry r (PyDict nutriments) (py ''carbohydrates_100g'') = Inr cb"
       "nutrient_entry r (PyDict nutriments) (py ''fiber_100g'') = Inr fb"
       "nutrient_entry r (PyDict nutriments) (py ''sugars_100g'') = Inr sg"
       "nutrient_entry r (PyDict nutriments) (py ''sodium_100g'') = Inr so"
    and fd: "food_data = remove_none
       [(py ''barcode'', PyStr bc), (py ''name'', nm), (py ''brand'', br),
        (py ''category'', cat), (py ''calories'', cal), (py ''protein'', pr),
        (py ''fat'', ft), (py ''carbs'', cb), (py ''fiber'', fb), (py ''sugars'', sg),
        (py ''sodium'', so), (py ''allergens'', al), (py ''quantity'', PyInt 1)]"
    unfolding n [symmetric] by (rule build_food_data_Inr)
  have "\<not> truthy (get nutriments (py ''energy-kcal_100g'')) \<Longrightarrow>
          map_of food_data (py ''calories'') = None"
    using calories_entry_falsy [OF e(1)] unfolding fd lookup_food_data by (simp add: py_def)
  moreover have "\<not> truthy (get nutriments (py ''proteins_100g'')) \<Longrightarrow>
          map_of food_data (py ''protein'') = None"
    using nutrient_entry_falsy [OF e(2)] unfolding fd lookup_food_data by (simp add: py_def)
  moreover have "\<not> truthy (get nutriments (py ''fat_100g'')) \<Longrightarrow>
          map_of food_data (py ''fat'') = None"
    using nutrient_entry_falsy [OF e(3)] unfolding fd lookup_food_data by (simp add: py_def)
  moreover have "\<not> truthy (get nutriments (py ''carbohydrates_100g'')) \<Longrightarrow>
          map_of food_data (py ''carbs'') = None"
    using nutrient_entry_falsy [OF e(4)] unfolding fd lookup_food_data by (simp add: py_def)
  moreover have "\<not> truthy (get nutriments (py ''fiber_100g'')) \<Longrightarrow>
          map_of food_data (py ''fiber'') = None"
    using nutrient_entry_falsy [OF e(5)] unfolding fd lookup_food_data by (simp add: py_def)
  moreover have "\<not> truthy (get nutriments (py ''sugars_100g'')) \<Longrightarrow>
          map_of food_data (py ''sugars'') = None"
    using nutrient_entry_falsy [OF e(6)] unfolding fd lookup_food_data by (simp add: py_def)
  moreover have "\<not> truthy (get nutriments (py ''sodium_100g'')) \<Longrightarrow>
          map_of food_data (py ''sodium'') = None"
    using nutrient_entry_falsy [OF e(7)] unfolding fd lookup_food_data by (simp add: py_def)
  ultimately show ?thesis by blast
qed
lemmas build_eval = build_food_data_def entry_defs py_eval

theorem falsy_nutrient_absent_witness:
  "build_food_data (\<lambda>x. x) (py ''12345678'')
      (PyDict [(py ''nutriments'', PyDict [(py ''proteins_100g'', PyInt 0)])])
     = Inr [(py ''barcode'', PyStr (py ''12345678'')),
            (py ''name'', PyStr (py ''Unknown Product'')),
            (py ''quantity'', PyInt 1)]
   \<and> map_of [(py ''barcode'', PyStr (py ''12345678'')),
              (py ''name'', PyStr (py ''Unknown Product'')),
              (py ''quantity'', PyInt 1)] (py ''protein'') = None"
proof -
  have a: "build_food_data (\<lambda>x. x) (py ''12345678'')
      (PyDict [(py ''nutriments'', PyDict [(py ''proteins_100g'', PyInt 0)])])
     = Inr [(py ''barcode'', PyStr (py ''12345678'')),
            (py ''name'', PyStr (py ''Unknown Product'')),
            (py ''quantity'', PyInt 1)]"
    by (simp add: build_eval)
  have b: "get_default [(py ''nutriments'', PyDict [(py ''proteins_100g'', PyInt 0)])]
             (py ''nutriments'') (PyDict []) = PyDict [(py ''proteins_100g'', PyInt 0)]"
    by (simp add: get_default_def)
  have c: "\<not> truthy (get [(py ''proteins_100g'', PyInt 0)] (py ''proteins_100g''))"
    by (simp add: get_def)
  from falsy_nutrient_absent [OF a b]
  have "\<not> truthy (get [(py ''proteins_100g'', PyInt 0)] (py ''proteins_100g'')) \<longrightarrow>
     map_of [(py ''barcode'', PyStr (py ''12345678'')),
              (py ''name'', PyStr (py ''Unknown Product'')),
              (py ''quantity'', PyInt 1)] (py ''protein'') = None"
    by (rule conjunct1 [OF conjunct2])
  then have "map_of [(py ''barcode'', PyStr (py ''12345678'')),
              (py ''name'', PyStr (py ''Unknown Product'')),
              (py ''quantity'', PyInt 1)] (py ''protein'') = None"
    using c by (rule mp)
  with a show ?thesis by (rule conjI)
qed

lemma allergens_entry_str:
  assumes "map_of product (py ''allergens'') = Some (PyStr a)" and "a \<noteq> []"
  shows "allergens_entry product = Inr (PyList (map PyStr (split 44 a)))"
  using assms by (simp add: allergens_entry_def get_def get_default_def as_str_def bind_def)

text \<open>
  C2, as stated: the allergens are the comma-split tokens with surrounding whitespace
  removed, so that \<open>milk, soy\<close> gives \<open>milk\<close> and \<open>soy\<close>. This fails: the source splits
  at the commas and strips nothing, and the second token keeps its leading blank.
\<close>

theorem allergens_not_trimmed_counterexample:
  "build_food_data (\<lambda>x. x) (py ''12345678'')
      (PyDict [(py ''allergens'', PyStr (py ''milk, soy''))])
     = Inr [(py ''barcode'', PyStr (py ''12345678'')),
            (py ''name'', PyStr (py ''Unknown Product'')),
            (py ''allergens'', PyList [PyStr (py ''milk''), PyStr (py '' soy'')]),
            (py ''quantity'', PyInt 1)]
   \<and> PyList [PyStr (py ''milk''), PyStr (py '' soy'')]
       \<noteq> PyList [PyStr (py ''milk''), PyStr (py ''soy'')]"
  by (simp add: build_eval)

text \<open>
  C2, amended: when the allergens field is a non-empty string, the record's allergens
  are the pieces of that string between its commas, in source order and exactly as
  they stand (whitespace is kept); \<open>milk, soy\<close> gives \<open>milk\<close> and \<open> soy\<close>.
\<close>

theorem allergens_split_untrimmed:
  assumes ok: "build_food_data r bc (PyDict product) = Inr food_data"
    and al: "map_of product (py ''allergens'') = Some (PyStr a)"
    and ne: "a \<noteq> []"
  shows "map_of food_data (py ''allergens'') = Some (PyList (map PyStr (split 44 a)))"
proof -
  from ok obtain nm br cat cal pr ft cb fb sg so al' where
    e: "allergens_entry product = Inr al'"
    and fd: "food_data = remove_none
       [(py ''barcode'', PyStr bc), (py ''name'', nm), (py ''brand'', br),
        (py ''category'', cat), (py ''calories'', cal), (py ''protein'', pr),
        (py ''fat'', ft), (py ''carbs'', cb), (py ''fiber'', fb), (py ''sugars'', sg),
        (py ''sodium'', so), (py ''allergens'', al'), (py ''quantity'', PyInt 1)]"
    by (rule build_food_data_Inr)
  from e allergens_entry_str [OF al ne]
  have al': "al' = PyList (map PyStr (split 44 a))" by simp
  show ?thesis
    unfolding fd lookup_food_data al' by (simp add: py_def split_nonempty)
qed

theorem allergens_split_untrimmed_witness:
  "build_food_data (\<lambda>x. x) (py ''12345678'')
      (PyDict [(py ''allergens'', PyStr (py ''milk, soy''))])
     = Inr [(py ''barcode'', PyStr (py ''12345678'')),
            (py ''name'', PyStr (py ''Unknown Product'')),
            (py ''allergens'', PyList [PyStr (py ''milk''), PyStr (py '' soy'')]),
            (py ''quantity'', PyInt 1)]
   \<and> map_of [(py ''barcode'', PyStr (py ''12345678'')),
            (py ''name'', PyStr (py ''Unknown Product'')),
            (py ''allergens'', PyList [PyStr (py ''milk''), PyStr (py '' soy'')]),
            (py ''quantity'', PyInt 1)] (py ''allergens'')
       = Some (PyList (map PyStr (split 44 (py ''milk, soy''))))"
proof -
  have a: "build_food_data (\<lambda>x. x) (py ''12345678'')
      (PyDict [(py ''allergens'', PyStr (py ''milk, soy''))])
     = Inr [(py ''barcode'', PyStr (py ''12345678'')),
            (py ''name'', PyStr (py ''Unknown Product'')),
            (py ''allergens'', PyList [PyStr (py ''milk''), PyStr (py '' soy'')]),
            (py ''quantity'', PyInt 1)]"
    by (simp add: build_eval)
  have b: "map_of [(py ''allergens'', PyStr (py ''milk, soy''))] (py ''allergens'')
             = Some (PyStr (py ''milk, soy''))"
    by simp
  have c: "py ''milk, soy'' \<noteq> []" by (simp add: py_def)
  from a allergens_split_untrimmed [OF a b c] show ?thesis by (rule conjI)
qed

text \<open>
  C3 at a product whose name is blank or empty: \<^verbatim>\<open>.strip()\<close> gives the empty string,
  the filter drops it, and the record has no name (the default \<open>Unknown Product\<close> is
  used only when the key \<^verbatim>\<open>product_name\<close> is absent).
\<close>

theorem blank_product_name_dropped:
  "build_food_data (\<lambda>x. x) (py ''12345678'')
      (PyDict [(py ''product_name'', PyStr (py ''  ''))])
     = Inr [(py ''barcode'', PyStr (py ''12345678'')), (py ''quantity'', PyInt 1)]
   \<and> build_food_data (\<lambda>x. x) (py ''12345678'')
      (PyDict [(py ''product_name'', PyStr [])])
     = Inr [(py ''barcode'', PyStr (py ''12345678'')), (py ''quantity'', PyInt 1)]"
  by (simp add: build_eval)

section \<open>Quantity updates\<close>

lemma db_one_eval:
  "db_one =
     \<lparr> foods =
         [\<lparr> food.id' = PyStr (py ''id-0''), barcode = PyStr (py ''12345678''),
            name = PyStr (py ''Oat milk''), brand = PyNone, category = PyNone,
            calories = PyNone, protein = PyNone, fat = PyNone, carbs = PyNone,
            fiber = PyNone, sugars = PyNone, sodium = PyNone, allergens = PyNone,
            expiry_date = PyNone, food.quantity = PyInt 0, location = PyNone,
            barcode_image_url = PyNone, barcode_image_data = PyNone,
            created_at = PyStr (py ''2024-01-01T00:00:00'') \<rparr>],
       nutrition_logs = [] \<rparr>"
  by (simp add: db_one_def db_empty_def create_food_def Food_def food_columns_def
      food_attributes_def
      with_defaults_def constraints_ok_def get_def py_def Let_def)

text \<open>A quantity update of an existing row with a valid action succeeds.\<close>

lemma update_quantity_succeeds:
  assumes "find (\<lambda>f. food.id' f = PyStr fid) (foods d) = Some row"
    and "act \<in> set valid_actions"
    and "\<bar>quantity_change\<bar> \<le> integer_max"
  shows "\<exists>d'. update_quantity d fid quantity_change act new_id ts = (Inr (Some row), d')"
  using assms by (simp add: update_quantity_def Let_def)

text \<open>
  C10: when \<^verbatim>\<open>update_quantity\<close> succeeds on an existing food item, the store has exactly
  one more nutrition-log row, appended last; its quantity is the absolute value of
  \<^verbatim>\<open>quantity_change\<close>, hence never negative, its action is the action passed, and the
  food rows are as before: the sign of the change is carried by the action tag alone.
\<close>

theorem update_quantity_logs_absolute:
  assumes "update_quantity d fid quantity_change act new_id ts = (Inr (Some row), d')"
  shows "nutrition_logs d' = nutrition_logs d @
           [\<lparr> id' = new_id, food_id = fid, quantity = \<bar>quantity_change\<bar>,
              timestamp = ts, action = act \<rparr>]
       \<and> nutrition_log.quantity (last (nutrition_logs d')) = \<bar>quantity_change\<bar>
       \<and> 0 \<le> nutrition_log.quantity (last (nutrition_logs d'))
       \<and> nutrition_log.action (last (nutrition_logs d')) = act
       \<and> foods d' = foods d"
  using assms
  by (auto simp: update_quantity_def Let_def split: option.splits if_splits)

theorem update_quantity_logs_absolute_witness:
  "(\<exists>row d'. update_quantity db_one (py ''id-0'') (- 3) (py ''removed'') (py ''log-1'')
       (py ''2024-01-03T00:00:00'') = (Inr (Some row), d')
     \<and> nutrition_logs d' =
         [\<lparr> id' = py ''log-1'', food_id = py ''id-0'', quantity = 3,
            timestamp = py ''2024-01-03T00:00:00'', action = py ''removed'' \<rparr>])"
proof -
  obtain r d' where u: "update_quantity db_one (py ''id-0'') (- 3) (py ''removed'') (py ''log-1'')
       (py ''2024-01-03T00:00:00'') = (r, d')"
    by (cases "update_quantity db_one (py ''id-0'') (- 3) (py ''removed'') (py ''log-1'')
       (py ''2024-01-03T00:00:00'')")
  have "\<exists>row. r = Inr (Some row)"
    using u by (auto simp add: update_quantity_def db_one_eval valid_actions_def py_def
        integer_max_def)
  then obtain row where r: "r = Inr (Some row)" ..
  have l: "nutrition_logs db_one = []" by (simp add: db_one_eval)
  from update_quantity_logs_absolute [OF u [unfolded r]]
  have "nutrition_logs d' = nutrition_logs db_one @
           [\<lparr> id' = py ''log-1'', food_id = py ''id-0'', quantity = \<bar>- 3\<bar>,
              timestamp = py ''2024-01-03T00:00:00'', action = py ''removed'' \<rparr>]"
    by (rule conjunct1)
  then have "nutrition_logs d' =
         [\<lparr> id' = py ''log-1'', food_id = py ''id-0'', quantity = 3,
            timestamp = py ''2024-01-03T00:00:00'', action = py ''removed'' \<rparr>]"
    by (simp add: l)
  with u r show ?thesis by blast
qed

section \<open>The upload endpoint\<close>

lemma rt_example_simps:
  "http_get (rt_example reply) url = reply"
  "float_round2 (rt_example reply) = (\<lambda>x. x)"
  "uuid4 (rt_example reply) = py ''id-1''"
  "now (rt_example reply) = py ''2024-01-02T00:00:00''"
  by (simp_all add: rt_example_def)

lemma req_example_simps:
  "imageData (req_example act) = [255]"
  "imageFormat (req_example act) = py ''jpeg''"
  "action (req_example act) = act"
  by (simp_all add: req_example_def)

lemma ean8_valid: "validate_barcode_format (py ''12345678'')"
  by (simp add: validate_barcode_format_def isdigit_def isdigit_char_def in_ranges_def
      digit_ranges_def valid_lengths_def py_def)

lemma detect_example:
  "fst (detect_barcodes_with_preprocessing (cv_example 0 [ean8]) [255] (py ''jpeg''))
     = Inr [py ''12345678'']"
  by (simp add: detect_barcodes_with_preprocessing_def detect_body_def caught_def
      cv_example_simps ean8_def utf8_decode_def py_def)

text \<open>The handler once a barcode is detected and has passed the format check.\<close>

lemma upload_body_validated:
  assumes "action req \<in> set [py ''scan'', py ''scan_and_save'']"
    and "fst (detect_barcodes_with_preprocessing cv (imageData req) (imageFormat req))
           = Inr (bc # others)"
    and "validate_barcode_format bc"
  shows "upload_body cv rt req d =
     (case fetch_product rt bc of
        Inl early \<Rightarrow> (Inr early, d)
      | Inr resp \<Rightarrow>
          (case bind (json resp)
                  (\<lambda>body. case body of
                             PyDict b \<Rightarrow> subscript b (py ''product'')
                           | _ \<Rightarrow> Inl TypeError) of
             Inl e \<Rightarrow> (Inl (Exc e), d)
           | Inr product \<Rightarrow>
               (case build_food_data (float_round2 rt) bc product of
                  Inl e \<Rightarrow> (Inl (Exc e), d)
                | Inr food_data \<Rightarrow>
                    if action req = py ''scan_and_save''
                    then (case save_product rt bc food_data d of (r, d') \<Rightarrow> (Inr r, d'))
                    else (Inr (scan_response bc food_data), d))))"
  using assms by (simp add: upload_body_def)

lemma upload_early:
  assumes "action req \<in> set [py ''scan'', py ''scan_and_save'']"
    and "fst (detect_barcodes_with_preprocessing cv (imageData req) (imageFormat req))
           = Inr (bc # others)"
    and "validate_barcode_format bc"
    and "fetch_product rt bc = Inl early"
  shows "upload_barcode_image cv rt req d = (Returned early, d)"
  by (simp add: upload_barcode_image_def upload_body_validated [OF assms(1-3)] assms(4))

lemma example_action:
  "action (req_example (py ''scan'')) \<in> set [py ''scan'', py ''scan_and_save'']"
  "action (req_example (py ''scan_and_save'')) \<in> set [py ''scan'', py ''scan_and_save'']"
  by (simp_all add: req_example_simps)

lemma example_detect:
  "fst (detect_barcodes_with_preprocessing (cv_example 0 [ean8])
          (imageData (req_example act)) (imageFormat (req_example act)))
     = Inr (py ''12345678'' # [])"
  by (simp add: req_example_simps detect_example)

text \<open>
  C1, as stated: when the catalog request itself raises (network error, timeout), the
  workflow returns the same normal outcome as for a non-200 or not-found reply:
  success, the barcode, no product data. This fails: a request that times out ends in
  the response of the \<^verbatim>\<open>except\<close> clause, which has \<^verbatim>\<open>success=False\<close>, no barcode and the
  exception text as its error.
\<close>

theorem network_error_not_barcode_only_counterexample:
  "upload_barcode_image (cv_example 0 [ean8])
     (rt_example (Inl (LibraryError (py ''Read timed out''))))
     (req_example (py ''scan'')) db_empty
   = (Returned (fetch_error_response (LibraryError (py ''Read timed out''))), db_empty)
   \<and> fetch_error_response (LibraryError (py ''Read timed out''))
       \<noteq> product_not_found_response (py ''12345678'')
   \<and> success (fetch_error_response (LibraryError (py ''Read timed out''))) = False
   \<and> response.barcode (fetch_error_response (LibraryError (py ''Read timed out''))) = None"
proof -
  have "fetch_product (rt_example (Inl (LibraryError (py ''Read timed out''))))
          (py ''12345678'')
        = Inl (fetch_error_response (LibraryError (py ''Read timed out'')))"
    by (simp add: fetch_product_def rt_example_simps)
  from upload_early [OF example_action(1) example_detect ean8_valid this]
  show ?thesis
    by (simp add: fetch_error_response_def product_not_found_response_def)
qed

text \<open>
  C1, amended: for a detected and valid barcode, a catalog reply with a status code
  other than 200, or a 200 reply whose body has status 0, gives the normal outcome
  (success, the barcode, no product data, no error). A catalog request that raises gives
  a returned response too, not a raised exception, but a failure response:
  \<^verbatim>\<open>success=False\<close>, no barcode, the message of the fetch error and \<^verbatim>\<open>str(e)\<close> as error.
  The store is unchanged in each case.
\<close>

theorem catalog_failure_outcomes:
  assumes "action req \<in> set [py ''scan'', py ''scan_and_save'']"
    and "fst (detect_barcodes_with_preprocessing cv (imageData req) (imageFormat req))
           = Inr (bc # others)"
    and "validate_barcode_format bc"
  shows "(\<forall>e. http_get rt (openfoodfacts_url bc) = Inl e \<longrightarrow>
            upload_barcode_image cv rt req d = (Returned (fetch_error_response e), d))
       \<and> (\<forall>resp. http_get rt (openfoodfacts_url bc) = Inr resp \<and> status_code resp \<noteq> 200 \<longrightarrow>
            upload_barcode_image cv rt req d = (Returned (product_not_found_response bc), d))
       \<and> (\<forall>resp body. http_get rt (openfoodfacts_url bc) = Inr resp \<and> status_code resp = 200
              \<and> json resp = Inr (PyDict body) \<and> eq_zero (get body (py ''status'')) \<longrightarrow>
            upload_barcode_image cv rt req d = (Returned (product_not_found_response bc), d))
       \<and> (\<forall>e. success (fetch_error_response e) = False
              \<and> response.barcode (fetch_error_response e) = None
              \<and> error (fetch_error_response e) = Some (StrExn e))
       \<and> success (product_not_found_response bc) = True
       \<and> response.barcode (product_not_found_response bc) = Some bc
       \<and> product_data (product_not_found_response bc) = None
       \<and> error (product_not_found_response bc) = None"
proof -
  have a: "http_get rt (openfoodfacts_url bc) = Inl e \<Longrightarrow>
            upload_barcode_image cv rt req d = (Returned (fetch_error_response e), d)" for e
    by (rule upload_early [OF assms]) (simp add: fetch_product_def)
  have b: "http_get rt (openfoodfacts_url bc) = Inr resp \<Longrightarrow> status_code resp \<noteq> 200 \<Longrightarrow>
            upload_barcode_image cv rt req d = (Returned (product_not_found_response bc), d)"
    for resp
    by (rule upload_early [OF assms]) (simp add: fetch_product_def)
  have c: "http_get rt (openfoodfacts_url bc) = Inr resp \<Longrightarrow> status_code resp = 200
              \<Longrightarrow> json resp = Inr (PyDict body) \<Longrightarrow> eq_zero (get body (py ''status'')) \<Longrightarrow>
            upload_barcode_image cv rt req d = (Returned (product_not_found_response bc), d)"
    for resp body
    by (rule upload_early [OF assms]) (simp add: fetch_product_def bind_def as_dict_def)
  show ?thesis
    using a b c by (simp add: fetch_error_response_def product_not_found_response_def)
qed

theorem catalog_failure_outcomes_witness:
  "upload_barcode_image (cv_example 0 [ean8])
     (rt_example (Inr \<lparr> status_code = 404, json = Inl (LibraryError []) \<rparr>))
     (req_example (py ''scan'')) db_empty
   = (Returned (product_not_found_response (py ''12345678'')), db_empty)"
proof -
  let ?resp = "\<lparr> status_code = 404, json = Inl (LibraryError []) \<rparr>"
  have h: "http_get (rt_example (Inr ?resp)) (openfoodfacts_url (py ''12345678'')) = Inr ?resp
      \<and> status_code ?resp \<noteq> 200"
    by (simp add: rt_example_simps)
  from catalog_failure_outcomes [OF example_action(1) example_detect ean8_valid,
      of "rt_example (Inr ?resp)" db_empty]
  have "\<forall>resp. http_get (rt_example (Inr ?resp)) (openfoodfacts_url (py ''12345678'')) = Inr resp
          \<and> status_code resp \<noteq> 200 \<longrightarrow>
        upload_barcode_image (cv_example 0 [ean8]) (rt_example (Inr ?resp))
          (req_example (py ''scan'')) db_empty
        = (Returned (product_not_found_response (py ''12345678'')), db_empty)"
    by (rule conjunct1 [OF conjunct2])
  then have "http_get (rt_example (Inr ?resp)) (openfoodfacts_url (py ''12345678'')) = Inr ?resp
          \<and> status_code ?resp \<noteq> 200 \<longrightarrow>
        upload_barcode_image (cv_example 0 [ean8]) (rt_example (Inr ?resp))
          (req_example (py ''scan'')) db_empty
        = (Returned (product_not_found_response (py ''12345678'')), db_empty)"
    by (rule spec)
  then show ?thesis using h by (rule mp)
qed

text \<open>
  C9: when the catalog replies 200 with a body whose status is not 0 and that has no
  \<^verbatim>\<open>product\<close> key, \<^verbatim>\<open>response.json()['product']\<close> raises KeyError outside the inner
  \<^verbatim>\<open>try\<close>; the handler returns none of its responses and raises the HTTP 500 of the outer
  \<^verbatim>\<open>except\<close> clause, with the store unchanged.
\<close>

theorem missing_product_key_is_500:
  assumes "action req \<in> set [py ''scan'', py ''scan_and_save'']"
    and "fst (detect_barcodes_with_preprocessing cv (imageData req) (imageFormat req))
           = Inr (bc # others)"
    and "validate_barcode_format bc"
    and "http_get rt (openfoodfacts_url bc) = Inr resp"
    and "status_code resp = 200"
    and "json resp = Inr (PyDict body)"
    and "\<not> eq_zero (get body (py ''status''))"
    and "map_of body (py ''product'') = None"
  shows "upload_barcode_image cv rt req d =
     (HTTPException 500 (LitStrExn (py ''Error processing barcode image: '') KeyError), d)"
proof -
  have f: "fetch_product rt bc = Inr resp"
    using assms(4-7) by (simp add: fetch_product_def bind_def as_dict_def)
  show ?thesis
    using assms(6,8)
    by (simp add: upload_barcode_image_def upload_body_validated [OF assms(1-3)] f
        bind_def subscript_def)
qed

theorem missing_product_key_is_500_witness:
  "upload_barcode_image (cv_example 0 [ean8])
     (rt_example (Inr \<lparr> status_code = 200,
                          json = Inr (PyDict [(py ''status'', PyInt 1)]) \<rparr>))
     (req_example (py ''scan'')) db_empty
   = (HTTPException 500 (LitStrExn (py ''Error processing barcode image: '') KeyError),
      db_empty)"
proof -
  let ?resp = "\<lparr> status_code = 200, json = Inr (PyDict [(py ''status'', PyInt 1)]) \<rparr>"
  have a: "http_get (rt_example (Inr ?resp)) (openfoodfacts_url (py ''12345678'')) = Inr ?resp"
    by (simp add: rt_example_simps)
  have b: "status_code ?resp = 200" by simp
  have c: "json ?resp = Inr (PyDict [(py ''status'', PyInt 1)])" by simp
  have e: "\<not> eq_zero (get [(py ''status'', PyInt 1)] (py ''status''))"
    by (simp add: get_def)
  have g: "map_of [(py ''status'', PyInt 1)] (py ''product'') = None"
    by (simp add: py_def)
  show ?thesis
    by (rule missing_product_key_is_500
        [OF example_action(1) example_detect ean8_valid a b c e g])
qed

lemma db_one_row: "get_food_by_barcode db_one (py ''12345678'') = Some (hd (foods db_one))"
  by (simp add: get_food_by_barcode_def db_one_eval)

text \<open>The save step when a row with the barcode exists.\<close>

lemma save_product_existing:
  assumes "get_food_by_barcode d bc = Some existing_food"
  shows "snd (save_product rt bc food_data d) = d"
    and "\<not> truthy (barcode_image_data existing_food) \<Longrightarrow>
         \<exists>existing. to_dict existing_food = Inr existing
            \<and> fst (save_product rt bc food_data d) = already_exists_response bc existing"
  using assms by (auto simp: save_product_def to_dict_def split: sum.splits)

lemma save_product_existing_store:
  assumes "get_food_by_barcode d bc = Some existing_food"
    and "save_product rt bc food_data d = (r, d')"
  shows "d' = d"
  using save_product_existing(1) [OF assms(1), of rt food_data] assms(2) by simp

text \<open>
  A \<^verbatim>\<open>scan_and_save\<close> request whose valid barcode has a row in the store leaves the
  store as it was, whatever the catalog answers. When the catalog gives a product from
  which the record is built and the row has no barcode image data, the response carries
  the dict of the first such row, not the freshly built record.
\<close>

theorem existing_record_wins:
  assumes act: "action req = py ''scan_and_save''"
    and det: "fst (detect_barcodes_with_preprocessing cv (imageData req) (imageFormat req))
           = Inr (bc # others)"
    and val: "validate_barcode_format bc"
    and ex: "get_food_by_barcode d bc = Some existing_food"
  shows "snd (upload_barcode_image cv rt req d) = d
       \<and> (\<forall>resp body product food_data.
             fetch_product rt bc = Inr resp
             \<and> json resp = Inr (PyDict body)
             \<and> map_of body (py ''product'') = Some product
             \<and> build_food_data (float_round2 rt) bc product = Inr food_data
             \<and> \<not> truthy (barcode_image_data existing_food) \<longrightarrow>
             (\<exists>existing. to_dict existing_food = Inr existing
                \<and> upload_barcode_image cv rt req d
                    = (Returned (already_exists_response bc existing), d)))
       \<and> (\<forall>existing. product_data (already_exists_response bc existing) = Some existing)"
proof -
  have a: "action req \<in> set [py ''scan'', py ''scan_and_save'']"
    using act by simp
  note body = upload_body_validated [OF a det val]
  have frame: "snd (upload_barcode_image cv rt req d) = d"
    by (auto simp: upload_barcode_image_def body act
        dest: save_product_existing_store [OF ex]
        split: sum.splits prod.splits raised.splits)
  have ret: "\<exists>existing. to_dict existing_food = Inr existing
                \<and> upload_barcode_image cv rt req d
                    = (Returned (already_exists_response bc existing), d)"
    if "fetch_product rt bc = Inr resp" "json resp = Inr (PyDict body)"
      "map_of body (py ''product'') = Some product"
      "build_food_data (float_round2 rt) bc product = Inr food_data"
      "\<not> truthy (barcode_image_data existing_food)"
    for resp body product food_data
  proof -
    from save_product_existing(2) [OF ex that(5), of rt food_data]
    obtain existing where e: "to_dict existing_food = Inr existing"
      "fst (save_product rt bc food_data d) = already_exists_response bc existing"
      by blast
    have "save_product rt bc food_data d = (already_exists_response bc existing, d)"
      using e(2) save_product_existing(1) [OF ex, of rt food_data]
      by (cases "save_product rt bc food_data d") simp
    then have "upload_barcode_image cv rt req d
                    = (Returned (already_exists_response bc existing), d)"
      using that(1-4)
      by (simp add: upload_barcode_image_def upload_body_validated [OF a det val] act
          bind_def subscript_def)
    with e(1) show ?thesis by blast
  qed
  show ?thesis
    using frame ret by (simp add: already_exists_response_def)
qed

theorem existing_record_wins_witness:
  "\<exists>existing. to_dict (hd (foods db_one)) = Inr existing
     \<and> upload_barcode_image (cv_example 0 [ean8])
          (rt_example (Inr \<lparr> status_code = 200,
             json = Inr (PyDict [(py ''status'', PyInt 1),
                      (py ''product'', PyDict [(py ''product_name'', PyStr (py ''Oat drink''))])]) \<rparr>))
          (req_example (py ''scan_and_save'')) db_one
        = (Returned (already_exists_response (py ''12345678'') existing), db_one)"
proof -
  let ?body = "[(py ''status'', PyInt 1),
                (py ''product'', PyDict [(py ''product_name'', PyStr (py ''Oat drink''))])]"
  let ?resp = "\<lparr> status_code = 200, json = Inr (PyDict ?body) \<rparr>"
  let ?rt = "rt_example (Inr ?resp)"
  have act: "action (req_example (py ''scan_and_save'')) = py ''scan_and_save''"
    by (simp add: req_example_simps)
  have h: "fetch_product ?rt (py ''12345678'') = Inr ?resp
      \<and> json ?resp = Inr (PyDict ?body)
      \<and> map_of ?body (py ''product'')
          = Some (PyDict [(py ''product_name'', PyStr (py ''Oat drink''))])
      \<and> build_food_data (float_round2 ?rt) (py ''12345678'')
            (PyDict [(py ''product_name'', PyStr (py ''Oat drink''))])
          = Inr [(py ''barcode'', PyStr (py ''12345678'')),
                 (py ''name'', PyStr (py ''Oat drink'')), (py ''quantity'', PyInt 1)]
      \<and> \<not> truthy (barcode_image_data (hd (foods db_one)))"
    by (simp add: fetch_product_def rt_example_simps bind_def as_dict_def get_def
        build_eval db_one_eval)
  from existing_record_wins [OF act example_detect ean8_valid db_one_row, of ?rt]
  have "\<forall>resp body product food_data.
             fetch_product ?rt (py ''12345678'') = Inr resp
             \<and> json resp = Inr (PyDict body)
             \<and> map_of body (py ''product'') = Some product
             \<and> build_food_data (float_round2 ?rt) (py ''12345678'') product = Inr food_data
             \<and> \<not> truthy (barcode_image_data (hd (foods db_one))) \<longrightarrow>
             (\<exists>existing. to_dict (hd (foods db_one)) = Inr existing
                \<and> upload_barcode_image (cv_example 0 [ean8]) ?rt
                     (req_example (py ''scan_and_save'')) db_one
                    = (Returned (already_exists_response (py ''12345678'') existing), db_one))"
    by (rule conjunct1 [OF conjunct2])
  then show ?thesis using h by blast
qed

text \<open>
  A row with barcode image data: \<^verbatim>\<open>to_dict\<close> raises, the inner \<^verbatim>\<open>except\<close> clause answers,
  and the response carries the freshly built record with the message of a failed save.
\<close>

lemma save_product_image_data:
  assumes "get_food_by_barcode d bc = Some existing_food"
    and "truthy (barcode_image_data existing_food)"
  shows "save_product rt bc food_data d = (save_failed_response bc food_data, d)"
  using assms by (simp add: save_product_def to_dict_def)

lemma upload_existing_image_data:
  assumes "action req = py ''scan_and_save''"
    and "fst (detect_barcodes_with_preprocessing cv (imageData req) (imageFormat req))
           = Inr (bc # others)"
    and "validate_barcode_format bc"
    and "get_food_by_barcode d bc = Some existing_food"
    and "truthy (barcode_image_data existing_food)"
    and "fetch_product rt bc = Inr resp"
    and "json resp = Inr (PyDict body)"
    and "map_of body (py ''product'') = Some product"
    and "build_food_data (float_round2 rt) bc product = Inr food_data"
  shows "upload_barcode_image cv rt req d
           = (Returned (save_failed_response bc food_data), d)"
proof -
  have a: "action req \<in> set [py ''scan'', py ''scan_and_save'']"
    using assms(1) by simp
  show ?thesis
    using assms(1,6-9) save_product_image_data [OF assms(4,5), of rt food_data]
    by (simp add: upload_barcode_image_def upload_body_validated [OF a assms(2,3)]
        bind_def subscript_def)
qed

lemma db_image_eval:
  "db_image =
     \<lparr> foods =
         [\<lparr> food.id' = PyStr (py ''id-0''), barcode = PyStr (py ''12345678''),
            name = PyStr (py ''Oat milk''), brand = PyNone, category = PyNone,
            calories = PyNone, protein = PyNone, fat = PyNone, carbs = PyNone,
            fiber = PyNone, sugars = PyNone, sodium = PyNone, allergens = PyNone,
            expiry_date = PyNone, food.quantity = PyInt 0, location = PyNone,
            barcode_image_url = PyNone, barcode_image_data = PyBytes [137, 80, 78, 71],
            created_at = PyStr (py ''2024-01-01T00:00:00'') \<rparr>],
       nutrition_logs = [] \<rparr>"
  by (simp add: db_image_def db_one_eval)

text \<open>
  C8 at a stored row that has barcode image data: the request is \<^verbatim>\<open>scan_and_save\<close>, the
  barcode 12345678 has a row (named \<open>Oat milk\<close>) and the catalog gives a product (named
  \<open>Oat drink\<close>). \<^verbatim>\<open>existing_food.to_dict()\<close> raises on
  \<^verbatim>\<open>barcode_image_data.decode('base64')\<close>, the inner \<^verbatim>\<open>except\<close> clause answers, and the
  response carries the freshly built record with the message of a failed save, not the
  stored row. The store is unchanged.
\<close>

theorem existing_record_image_data_returns_candidate:
  "get_food_by_barcode db_image (py ''12345678'') = Some (hd (foods db_image))
   \<and> name (hd (foods db_image)) = PyStr (py ''Oat milk'')
   \<and> upload_barcode_image (cv_example 0 [ean8])
        (rt_example (Inr \<lparr> status_code = 200,
           json = Inr (PyDict [(py ''status'', PyInt 1),
                    (py ''product'', PyDict [(py ''product_name'', PyStr (py ''Oat drink''))])]) \<rparr>))
        (req_example (py ''scan_and_save'')) db_image
      = (Returned (save_failed_response (py ''12345678'')
                     [(py ''barcode'', PyStr (py ''12345678'')),
                      (py ''name'', PyStr (py ''Oat drink'')),
                      (py ''quantity'', PyInt 1)]),
         db_image)"
proof -
  let ?body = "[(py ''status'', PyInt 1),
                (py ''product'', PyDict [(py ''product_name'', PyStr (py ''Oat drink''))])]"
  let ?resp = "\<lparr> status_code = 200, json = Inr (PyDict ?body) \<rparr>"
  let ?rt = "rt_example (Inr ?resp)"
  have act: "action (req_example (py ''scan_and_save'')) = py ''scan_and_save''"
    by (simp add: req_example_simps)
  have row: "get_food_by_barcode db_image (py ''12345678'') = Some (hd (foods db_image))"
    by (simp add: get_food_by_barcode_def db_image_eval)
  have nm: "name (hd (foods db_image)) = PyStr (py ''Oat milk'')"
    by (simp add: db_image_eval)
  have img: "truthy (barcode_image_data (hd (foods db_image)))"
    by (simp add: db_image_eval)
  have f: "fetch_product ?rt (py ''12345678'') = Inr ?resp"
    by (simp add: fetch_product_def rt_example_simps bind_def as_dict_def get_def)
  have j: "json ?resp = Inr (PyDict ?body)" by simp
  have p: "map_of ?body (py ''product'')
          = Some (PyDict [(py ''product_name'', PyStr (py ''Oat drink''))])"
    by (simp add: py_def)
  have b: "build_food_data (float_round2 ?rt) (py ''12345678'')
            (PyDict [(py ''product_name'', PyStr (py ''Oat drink''))])
          = Inr [(py ''barcode'', PyStr (py ''12345678'')),
                 (py ''name'', PyStr (py ''Oat drink'')), (py ''quantity'', PyInt 1)]"
    by (simp add: build_eval)
  from upload_existing_image_data [OF act example_detect ean8_valid row img f j p b]
  show ?thesis using row nm by simp
qed

end
